theory Spec2Isabelle
  imports Main "HOL-Library.Word"
begin

section \<open>The atom inventory of drinks\_bar.c\<close>

text \<open>
  The server of \<^verbatim>\<open>EX6/drinks_bar.c\<close> keeps three unsigned 64-bit counters in the
  global \<^verbatim>\<open>atom_stock\<close>. The counters are modelled as 64-bit words, so that
  \<open>+\<close>, \<open>-\<close> and \<open>*\<close> wrap as \<^verbatim>\<open>uint64_t\<close> does and \<open><\<close> is the unsigned order.
\<close>

type_synonym u64 = "64 word"
type_synonym byte = "8 word"

record AtomStock =
  carbon :: u64
  oxygen :: u64
  hydrogen :: u64

definition MAX_ATOMS :: u64 where
  "MAX_ATOMS = 1000000000000000000"

definition ULLONG_MAX :: u64 where
  "ULLONG_MAX = 0xFFFFFFFFFFFFFFFF"

text \<open>The buffers of the server hold \<^verbatim>\<open>MAXBUF\<close> bytes.\<close>

definition MAXBUF :: nat where
  "MAXBUF = 1024"

section \<open>C strings and the C library\<close>

abbreviation LF :: char where
  "LF \<equiv> CHR 0x0A"

abbreviation NUL :: char where
  "NUL \<equiv> CHR 0x00"

text \<open>A buffer read as a C string ends at its first NUL byte.\<close>

definition cstr :: "string \<Rightarrow> string" where
  "cstr s = takeWhile (\<lambda>c. c \<noteq> NUL) s"

text \<open>
  \<^verbatim>\<open>strncpy(temp, line, sizeof(temp)); temp[sizeof(temp)-1] = '\0';\<close>
  keeps at most \<^verbatim>\<open>MAXBUF - 1\<close> bytes of the line.
\<close>

definition copy_line :: "string \<Rightarrow> string" where
  "copy_line line = take (MAXBUF - 1) (cstr line)"

text \<open>
  \<^verbatim>\<open>strtok_r(str, delim, &saveptr)\<close>: skip the leading delimiters; at the end of the
  string there is no token; otherwise the token runs to the next delimiter, and the
  scan resumes behind that delimiter. The result is the token (if any) and the text
  the save pointer is left at.
\<close>

definition strtok_r :: "string \<Rightarrow> string \<Rightarrow> string option \<times> string" where
  "strtok_r delim s =
     (let s1 = dropWhile (\<lambda>c. c \<in> set delim) s in
      if s1 = [] then (None, [])
      else (Some (takeWhile (\<lambda>c. c \<notin> set delim) s1),
            drop 1 (dropWhile (\<lambda>c. c \<notin> set delim) s1)))"

text \<open>The delimiter sets of the two network parsers and of the console.\<close>

definition net_delim :: string where
  "net_delim = [CHR '' '', CHR 0x09, CHR 0x0D, CHR 0x0A]"

definition console_delim :: string where
  "console_delim = [CHR '' '', CHR 0x09]"

definition isspace :: "char \<Rightarrow> bool" where
  "isspace c = (c \<in> set [CHR '' '', CHR 0x09, CHR 0x0A, CHR 0x0B, CHR 0x0C, CHR 0x0D])"

definition isdigit :: "char \<Rightarrow> bool" where
  "isdigit c = (48 \<le> (of_char c :: nat) \<and> (of_char c :: nat) \<le> 57)"

definition digit_val :: "char \<Rightarrow> nat" where
  "digit_val c = of_char c - 48"

definition dec_val :: "string \<Rightarrow> nat" where
  "dec_val ds = foldl (\<lambda>a c. 10 * a + digit_val c) 0 ds"

text \<open>
  \<^verbatim>\<open>strtoull(nptr, &endptr, 10)\<close>: leading white space is skipped, one sign is
  accepted, then come the decimal digits. Without a digit the result is 0 and
  \<^verbatim>\<open>endptr\<close> is \<^verbatim>\<open>nptr\<close>. A value beyond \<^verbatim>\<open>ULLONG_MAX\<close> is returned as
  \<^verbatim>\<open>ULLONG_MAX\<close>; a value with a minus sign is negated in the unsigned type.
  The result is the value and the offset of \<^verbatim>\<open>endptr\<close> in the text.
\<close>

definition strtoull :: "string \<Rightarrow> u64 \<times> nat" where
  "strtoull nptr =
     (let ws = takeWhile isspace nptr;
          s1 = dropWhile isspace nptr;
          neg = (case s1 of [] \<Rightarrow> False | c # _ \<Rightarrow> c = CHR ''-'');
          sg = (case s1 of [] \<Rightarrow> 0 | c # _ \<Rightarrow> if c = CHR ''-'' \<or> c = CHR ''+'' then 1 else 0);
          ds = takeWhile isdigit (drop sg s1);
          n = dec_val ds
      in if ds = [] then (0, 0)
         else (if n > unat ULLONG_MAX then ULLONG_MAX
               else if neg then - of_nat n else of_nat n,
               length ws + sg + length ds))"

text \<open>\<^verbatim>\<open>%llu\<close>: a number in decimal, without leading zeros.\<close>

function show_nat :: "nat \<Rightarrow> string" where
  "show_nat n = (if n < 10 then [char_of (48 + n)]
                 else show_nat (n div 10) @ [char_of (48 + n mod 10)])"
  by pat_completeness auto
termination
  by (relation "measure id") auto

declare show_nat.simps [simp del]

definition llu :: "u64 \<Rightarrow> string" where
  "llu w = show_nat (unat w)"

section \<open>The save file\<close>

text \<open>
  The server touches one file, the one \<^verbatim>\<open>save_file_path\<close> names. Of the file
  system the model keeps that file: its bytes (\<open>None\<close> when \<^verbatim>\<open>stat\<close> fails, the
  file being absent), and whether opening it for reading and for writing is
  permitted. Transfers that a device cuts short are outside the model.
\<close>

record disk =
  contents :: "byte list option"
  rd_ok :: bool
  wr_ok :: bool

datatype fmode = RB | WB | R_PLUS_B | W_PLUS_B

fun fopen :: "disk \<Rightarrow> fmode \<Rightarrow> bool" where
  "fopen d RB = (contents d \<noteq> None \<and> rd_ok d)"
| "fopen d WB = wr_ok d"
| "fopen d R_PLUS_B = (contents d \<noteq> None \<and> rd_ok d \<and> wr_ok d)"
| "fopen d W_PLUS_B = (rd_ok d \<and> wr_ok d)"

text \<open>
  The file holds the bytes of the struct as they lie in memory: three 64-bit
  fields without padding, each with its low byte first, as on x86-64.
\<close>

definition u64_bytes :: "u64 \<Rightarrow> byte list" where
  "u64_bytes w = map (\<lambda>i. ucast (drop_bit (8 * i) w)) [0 ..< 8]"

definition bytes_u64 :: "byte list \<Rightarrow> u64" where
  "bytes_u64 bs = foldr (\<lambda>b acc. ucast b + 256 * acc) bs 0"

definition sizeof_AtomStock :: nat where
  "sizeof_AtomStock = 24"

definition stock_bytes :: "AtomStock \<Rightarrow> byte list" where
  "stock_bytes st = u64_bytes (carbon st) @ u64_bytes (oxygen st) @ u64_bytes (hydrogen st)"

definition bytes_stock :: "byte list \<Rightarrow> AtomStock" where
  "bytes_stock bs =
     \<lparr>carbon = bytes_u64 (take 8 bs),
      oxygen = bytes_u64 (take 8 (drop 8 bs)),
      hydrogen = bytes_u64 (take 8 (drop 16 bs))\<rparr>"

section \<open>The state of the server\<close>

text \<open>
  The globals \<^verbatim>\<open>atom_stock\<close> and \<^verbatim>\<open>save_file_path\<close>, the save file, and what
  the server printed on its standard output.
\<close>

record server =
  atom_stock :: AtomStock
  save_file_path :: "string option"
  save_file :: disk
  stdout :: "string list"

datatype halt = EXIT_FAILURE

definition printf :: "string \<Rightarrow> server \<Rightarrow> server" where
  "printf text s = s\<lparr>stdout := stdout s @ [text]\<rparr>"

definition print_inventory :: "server \<Rightarrow> server" where
  "print_inventory s =
     printf (''SERVER INVENTORY (atoms): Carbon='' @ llu (carbon (atom_stock s))
             @ ''  Oxygen='' @ llu (oxygen (atom_stock s))
             @ ''  Hydrogen='' @ llu (hydrogen (atom_stock s)) @ [LF]) s"

text \<open>
  \<^verbatim>\<open>load_atoms_from_file\<close>: a file of at least \<^verbatim>\<open>sizeof(AtomStock)\<close> bytes is read
  into \<^verbatim>\<open>atom_stock\<close>; otherwise \<^verbatim>\<open>atom_stock\<close> is set to the three given
  values and written to a new file. A file that cannot be opened ends the process.
\<close>

definition load_atoms_from_file :: "u64 \<Rightarrow> u64 \<Rightarrow> u64 \<Rightarrow> server \<Rightarrow> halt + server" where
  "load_atoms_from_file init_c init_o init_h s =
     (let d = save_file s;
          big = (case contents d of None \<Rightarrow> False
                 | Some bs \<Rightarrow> length bs \<ge> sizeof_AtomStock)
      in if big then
           (if \<not> fopen d RB then Inl EXIT_FAILURE
            else Inr (s\<lparr>atom_stock :=
                         bytes_stock (take sizeof_AtomStock (the (contents d)))\<rparr>))
         else
           (let s1 = s\<lparr>atom_stock := \<lparr>carbon = init_c, oxygen = init_o, hydrogen = init_h\<rparr>\<rparr>
            in if \<not> fopen d WB then Inl EXIT_FAILURE
               else Inr (s1\<lparr>save_file := d\<lparr>contents := Some (stock_bytes (atom_stock s1))\<rparr>\<rparr>)))"

text \<open>
  \<^verbatim>\<open>save_atoms_to_file\<close>: the file is opened for update, or created when that fails,
  and the struct is written at offset 0; bytes of an older, longer file stay behind
  it. A file that cannot be opened is left alone. The advisory lock changes nothing
  in a single process.
\<close>

definition save_atoms_to_file :: "server \<Rightarrow> server" where
  "save_atoms_to_file s =
     (let d = save_file s in
      if fopen d R_PLUS_B then
        s\<lparr>save_file := d\<lparr>contents :=
            Some (stock_bytes (atom_stock s) @ drop sizeof_AtomStock (the (contents d)))\<rparr>\<rparr>
      else if fopen d W_PLUS_B then
        s\<lparr>save_file := d\<lparr>contents := Some (stock_bytes (atom_stock s))\<rparr>\<rparr>
      else s)"

text \<open>
  The reload at the head of both parsers and of the console branch:
  \<^verbatim>\<open>if (save_file_path) load_atoms_from_file(save_file_path, 0, 0, 0);\<close>
\<close>

definition reload :: "server \<Rightarrow> halt + server" where
  "reload s = (if save_file_path s \<noteq> None then load_atoms_from_file 0 0 0 s else Inr s)"

text \<open>\<^verbatim>\<open>if (save_file_path) save_atoms_to_file(save_file_path);\<close>\<close>

definition save_if_configured :: "server \<Rightarrow> server" where
  "save_if_configured s = (if save_file_path s \<noteq> None then save_atoms_to_file s else s)"

section \<open>DELIVER: consuming atoms\<close>

text \<open>
  Lines 348 to 365 of \<^verbatim>\<open>parse_and_update_udp\<close>: the three checks in the order
  carbon, oxygen, hydrogen, and only then the three subtractions.
\<close>

definition try_consume :: "AtomStock \<Rightarrow> u64 \<Rightarrow> u64 \<Rightarrow> u64 \<Rightarrow> string + AtomStock" where
  "try_consume st req_carbon req_oxygen req_hydrogen =
     (if carbon st < req_carbon then Inl (''ERROR: not enough carbon atoms'' @ [LF])
      else if oxygen st < req_oxygen then Inl (''ERROR: not enough oxygen atoms'' @ [LF])
      else if hydrogen st < req_hydrogen then Inl (''ERROR: not enough hydrogen atoms'' @ [LF])
      else Inr (st\<lparr>carbon := carbon st - req_carbon,
                   oxygen := oxygen st - req_oxygen,
                   hydrogen := hydrogen st - req_hydrogen\<rparr>))"

text \<open>
  A reply is the text \<^verbatim>\<open>snprintf\<close> writes into the response buffer, with its
  line feed; no reply reaches the \<^verbatim>\<open>MAXBUF\<close> bytes of that buffer, as is shown
  further down. The en dash of the reply is three bytes of UTF-8 in the source
  file.
\<close>

definition atoms_left :: "AtomStock \<Rightarrow> string" where
  "atoms_left st =
     ''OK: Atoms left '' @ [CHR 0xE2, CHR 0x80, CHR 0x93] @ '' Carbon='' @ llu (carbon st)
     @ '' Oxygen='' @ llu (oxygen st) @ '' Hydrogen='' @ llu (hydrogen st) @ [LF]"

text \<open>
  Lines 348 to 380: a refused request returns its error with the state as it was;
  a granted one stores the new counters, prints them, saves them when a save file
  is configured, and replies with them.
\<close>

definition deliver_atoms :: "u64 \<Rightarrow> u64 \<Rightarrow> u64 \<Rightarrow> server \<Rightarrow> string \<times> server" where
  "deliver_atoms req_carbon req_oxygen req_hydrogen s =
     (case try_consume (atom_stock s) req_carbon req_oxygen req_hydrogen of
        Inl err \<Rightarrow> (err, s)
      | Inr st \<Rightarrow>
          (let s1 = save_if_configured (print_inventory (s\<lparr>atom_stock := st\<rparr>))
           in (atoms_left (atom_stock s1), s1)))"

section \<open>DELIVER: the parser\<close>

text \<open>
  Lines 269 to 291: the molecule named by the second token; \<^verbatim>\<open>CARBON\<close> takes one
  more token, which has to be \<^verbatim>\<open>DIOXIDE\<close>. The result is \<^verbatim>\<open>full_mol\<close> and the
  save pointer, or nothing for \<^verbatim>\<open>ERROR: invalid molecule type\<close>.
\<close>

definition molecule_name :: "string \<Rightarrow> string \<Rightarrow> (string \<times> string) option" where
  "molecule_name token_mol saveptr =
     (if token_mol = ''CARBON'' then
        (let (token_next, saveptr1) = strtok_r net_delim saveptr in
         if token_next \<noteq> Some ''DIOXIDE'' then None
         else Some (''CARBON DIOXIDE'', saveptr1))
      else if token_mol = ''WATER'' then Some (''WATER'', saveptr)
      else if token_mol = ''GLUCOSE'' then Some (''GLUCOSE'', saveptr)
      else if token_mol = ''ALCOHOL'' then Some (''ALCOHOL'', saveptr)
      else None)"

text \<open>
  Lines 317 to 346: the atoms needed for \<^verbatim>\<open>count\<close> molecules, as
  (carbon, oxygen, hydrogen), multiplied in \<^verbatim>\<open>uint64_t\<close>.
\<close>

definition required_atoms :: "string \<Rightarrow> u64 \<Rightarrow> (u64 \<times> u64 \<times> u64) option" where
  "required_atoms full_mol count =
     (if full_mol = ''WATER'' then Some (0, 1 * count, 2 * count)
      else if full_mol = ''CARBON DIOXIDE'' then Some (1 * count, 2 * count, 0)
      else if full_mol = ''GLUCOSE'' then Some (6 * count, 6 * count, 12 * count)
      else if full_mol = ''ALCOHOL'' then Some (2 * count, 1 * count, 6 * count)
      else None)"

text \<open>
  Lines 306 to 381: the number of the quantity token, the amounts it calls for,
  and the delivery.
\<close>

definition deliver_count :: "string \<Rightarrow> string \<Rightarrow> server \<Rightarrow> string \<times> server" where
  "deliver_count full_mol token_num s =
     (let (count, endptr) = strtoull token_num in
      if endptr = 0 \<or> endptr < length token_num then (''ERROR: invalid number'' @ [LF], s)
      else if count > MAX_ATOMS then (''ERROR: number too large'' @ [LF], s)
      else
        (case required_atoms full_mol count of
           None \<Rightarrow> (''ERROR: unknown molecule'' @ [LF], s)
         | Some (req_carbon, req_oxygen, req_hydrogen) \<Rightarrow>
             deliver_atoms req_carbon req_oxygen req_hydrogen s))"

text \<open>Lines 293 to 381: the quantity token and the check for a further token.\<close>

definition deliver_quantity :: "string \<Rightarrow> string \<Rightarrow> server \<Rightarrow> string \<times> server" where
  "deliver_quantity full_mol saveptr s =
     (let (token_num, saveptr1) = strtok_r net_delim saveptr in
      case token_num of
        None \<Rightarrow> (''ERROR: missing number'' @ [LF], s)
      | Some num \<Rightarrow>
          (let (token_extra, saveptr2) = strtok_r net_delim saveptr1 in
           if token_extra \<noteq> None then (''ERROR: too many arguments'' @ [LF], s)
           else deliver_count full_mol num s))"

text \<open>Lines 252 to 381: \<^verbatim>\<open>parse_and_update_udp\<close> behind its reload.\<close>

definition deliver_command :: "string \<Rightarrow> server \<Rightarrow> string \<times> server" where
  "deliver_command line s =
     (let temp = copy_line line;
          (token_cmd, saveptr1) = strtok_r net_delim temp;
          (token_mol, saveptr2) = strtok_r net_delim saveptr1
      in case (token_cmd, token_mol) of
           (Some cmd, Some mol) \<Rightarrow>
             if cmd \<noteq> ''DELIVER'' then (''ERROR: invalid command'' @ [LF], s)
             else
               (case molecule_name mol saveptr2 of
                  None \<Rightarrow> (''ERROR: invalid molecule type'' @ [LF], s)
                | Some (full_mol, saveptr3) \<Rightarrow> deliver_quantity full_mol saveptr3 s)
         | _ \<Rightarrow> (''ERROR: invalid command'' @ [LF], s))"

definition parse_and_update_udp :: "string \<Rightarrow> server \<Rightarrow> halt + string \<times> server" where
  "parse_and_update_udp line s =
     (case reload s of
        Inl e \<Rightarrow> Inl e
      | Inr s1 \<Rightarrow> Inr (deliver_command line s1))"

section \<open>ADD: the parser\<close>

datatype atom_type = CARBON | OXYGEN | HYDROGEN | TYPE_UNKNOWN

text \<open>Lines 174 to 181.\<close>

definition atom_type_of :: "string \<Rightarrow> atom_type" where
  "atom_type_of token_type =
     (if token_type = ''CARBON'' then CARBON
      else if token_type = ''OXYGEN'' then OXYGEN
      else if token_type = ''HYDROGEN'' then HYDROGEN
      else TYPE_UNKNOWN)"

text \<open>
  Lines 194 to 220: the sum is formed in \<^verbatim>\<open>uint64_t\<close> and compared with
  \<^verbatim>\<open>MAX_ATOMS\<close> before the counter is changed.
\<close>

fun try_add :: "atom_type \<Rightarrow> u64 \<Rightarrow> AtomStock \<Rightarrow> string + AtomStock" where
  "try_add CARBON val st =
     (if carbon st + val > MAX_ATOMS then Inl (''ERROR: capacity exceeded'' @ [LF])
      else Inr (st\<lparr>carbon := carbon st + val\<rparr>))"
| "try_add OXYGEN val st =
     (if oxygen st + val > MAX_ATOMS then Inl (''ERROR: capacity exceeded'' @ [LF])
      else Inr (st\<lparr>oxygen := oxygen st + val\<rparr>))"
| "try_add HYDROGEN val st =
     (if hydrogen st + val > MAX_ATOMS then Inl (''ERROR: capacity exceeded'' @ [LF])
      else Inr (st\<lparr>hydrogen := hydrogen st + val\<rparr>))"
| "try_add TYPE_UNKNOWN val st = Inl (''ERROR: unknown error'' @ [LF])"

definition atoms_now :: "AtomStock \<Rightarrow> string" where
  "atoms_now st =
     ''OK: Carbon='' @ llu (carbon st) @ '' Oxygen='' @ llu (oxygen st)
     @ '' Hydrogen='' @ llu (hydrogen st) @ [LF]"

text \<open>Lines 183 to 238: the number, the addition, the printed line, the save, the reply.\<close>

definition add_quantity :: "atom_type \<Rightarrow> string \<Rightarrow> server \<Rightarrow> string \<times> server" where
  "add_quantity type token_num s =
     (let (val, endptr) = strtoull token_num in
      if endptr = 0 \<or> endptr < length token_num then (''ERROR: invalid number'' @ [LF], s)
      else if val > MAX_ATOMS then (''ERROR: number too large'' @ [LF], s)
      else
        (case try_add type val (atom_stock s) of
           Inl err \<Rightarrow> (err, s)
         | Inr st \<Rightarrow>
             (let s1 = save_if_configured (print_inventory (s\<lparr>atom_stock := st\<rparr>))
              in (atoms_now (atom_stock s1), s1))))"

text \<open>Lines 156 to 238: \<^verbatim>\<open>parse_and_update_tcp\<close> behind its reload.\<close>

definition add_command :: "string \<Rightarrow> server \<Rightarrow> string \<times> server" where
  "add_command line s =
     (let temp = copy_line line;
          (token_cmd, saveptr1) = strtok_r net_delim temp;
          (token_type, saveptr2) = strtok_r net_delim saveptr1;
          (token_num, saveptr3) = strtok_r net_delim saveptr2
      in case (token_cmd, token_type, token_num) of
           (Some cmd, Some ty, Some num) \<Rightarrow>
             if cmd \<noteq> ''ADD'' then (''ERROR: invalid command'' @ [LF], s)
             else if atom_type_of ty = TYPE_UNKNOWN then (''ERROR: invalid atom type'' @ [LF], s)
             else add_quantity (atom_type_of ty) num s
         | _ \<Rightarrow> (''ERROR: invalid command'' @ [LF], s))"

definition parse_and_update_tcp :: "string \<Rightarrow> server \<Rightarrow> halt + string \<times> server" where
  "parse_and_update_tcp line s =
     (case reload s of
        Inl e \<Rightarrow> Inl e
      | Inr s1 \<Rightarrow> Inr (add_command line s1))"

section \<open>Start-up and the console\<close>

text \<open>
  Lines 610 to 619 of \<^verbatim>\<open>main\<close>: with \<^verbatim>\<open>-f\<close> the stock comes from the file, or
  from the values of \<^verbatim>\<open>-c\<close>, \<^verbatim>\<open>-o\<close> and \<^verbatim>\<open>-h\<close> when the file is absent or too
  small; without \<^verbatim>\<open>-f\<close> it is those values. They come from \<^verbatim>\<open>strtoull\<close>
  and are not compared with \<^verbatim>\<open>MAX_ATOMS\<close>.
\<close>

definition startup :: "u64 \<Rightarrow> u64 \<Rightarrow> u64 \<Rightarrow> server \<Rightarrow> halt + server" where
  "startup init_carbon init_oxygen init_hydrogen s =
     (if save_file_path s \<noteq> None
      then load_atoms_from_file init_carbon init_oxygen init_hydrogen s
      else Inr (s\<lparr>atom_stock :=
                   \<lparr>carbon = init_carbon, oxygen = init_oxygen, hydrogen = init_hydrogen\<rparr>\<rparr>))"

text \<open>The process as \<^verbatim>\<open>main\<close> finds it: the stock is zero, nothing is printed.\<close>

definition process_start :: "string option \<Rightarrow> disk \<Rightarrow> server" where
  "process_start path d =
     \<lparr>atom_stock = \<lparr>carbon = 0, oxygen = 0, hydrogen = 0\<rparr>,
      save_file_path = path, save_file = d, stdout = []\<rparr>"

text \<open>
  Lines 999 to 1030: how many drinks the stock allows, from the three quotients.
\<close>

definition can_make :: "u64 \<Rightarrow> u64 \<Rightarrow> u64 \<Rightarrow> AtomStock \<Rightarrow> u64" where
  "can_make per_c per_h per_o st =
     (let c = carbon st div per_c;
          h = hydrogen st div per_h;
          ox = oxygen st div per_o;
          m = c;
          m1 = (if h < m then h else m);
          m2 = (if ox < m1 then ox else m1)
      in m2)"

abbreviation QUOTE :: char where
  "QUOTE \<equiv> CHR 0x27"

text \<open>Lines 980 to 1035: one console line, already read by \<^verbatim>\<open>fgets\<close>.\<close>

definition console_command :: "string \<Rightarrow> server \<Rightarrow> server" where
  "console_command linebuf s =
     (let l0 = cstr linebuf;
          l1 = (if l0 \<noteq> [] \<and> last l0 = LF then butlast l0 else l0);
          (cmd, saveptr1) = strtok_r console_delim l1
      in if cmd \<noteq> Some ''GEN'' then printf (''ERROR: invalid console command'' @ [LF]) s
         else
           (let (drink, saveptr2) = strtok_r console_delim saveptr1 in
            case drink of
              None \<Rightarrow> printf (''ERROR: missing drink type after GEN'' @ [LF]) s
            | Some d \<Rightarrow>
                if d = ''SOFT'' then
                  (let (maybe_drink, saveptr3) = strtok_r console_delim saveptr2 in
                   if maybe_drink \<noteq> Some ''DRINK''
                   then printf (''ERROR: did you mean '' @ [QUOTE] @ ''GEN SOFT DRINK''
                                @ [QUOTE] @ ''?'' @ [LF]) s
                   else printf (''You can make up to '' @ llu (can_make 6 14 9 (atom_stock s))
                                @ '' SOFT DRINK(s)'' @ [LF]) s)
                else if d = ''VODKA'' then
                  printf (''You can make up to '' @ llu (can_make 8 20 8 (atom_stock s))
                          @ '' VODKA(s)'' @ [LF]) s
                else if d = ''CHAMPAGNE'' then
                  printf (''You can make up to '' @ llu (can_make 3 9 4 (atom_stock s))
                          @ '' CHAMPAGNE(s)'' @ [LF]) s
                else printf (''ERROR: unknown drink type '' @ [QUOTE] @ d @ [QUOTE] @ [LF]) s))"

text \<open>
  Lines 974 to 1045: the branch of the loop for standard input. The input is what
  \<^verbatim>\<open>fgets\<close> returns, \<open>None\<close> at the end of the input; the Boolean tells whether the
  loop goes on.
\<close>

definition console_ready :: "string option \<Rightarrow> server \<Rightarrow> halt + bool \<times> server" where
  "console_ready input s =
     (case reload s of
        Inl e \<Rightarrow> Inl e
      | Inr s1 \<Rightarrow>
          (case input of
             Some linebuf \<Rightarrow> Inr (True, console_command linebuf s1)
           | None \<Rightarrow>
               Inr (False, printf (''Console closed or error '' @ [CHR 0xE2, CHR 0x80, CHR 0x93]
                                   @ '' exiting.'' @ [LF]) s1)))"

section \<open>Notions the statements use\<close>

text \<open>
  The tokens of a line: what successive calls of \<^verbatim>\<open>strtok_r\<close> return, up to the
  first call that finds none.
\<close>

function tokens :: "string \<Rightarrow> string \<Rightarrow> string list" where
  "tokens delim s =
     (case strtok_r delim s of
        (None, rest) \<Rightarrow> []
      | (Some t, rest) \<Rightarrow> t # tokens delim rest)"
  by pat_completeness auto
termination
proof (relation "measure (\<lambda>(delim, s). length s)")
  show "wf (measure (\<lambda>(delim, s). length s))" by simp
next
  fix delim s :: string and tok :: "string option" and rest t :: string
  assume a: "(tok, rest) = strtok_r delim s" "tok = Some t"
  let ?s1 = "dropWhile (\<lambda>c. c \<in> set delim) s"
  from a have ne: "?s1 \<noteq> []" and r: "rest = drop 1 (dropWhile (\<lambda>c. c \<notin> set delim) ?s1)"
    by (auto simp: strtok_r_def Let_def split: if_splits)
  have "length rest \<le> length ?s1 - 1"
    using r length_dropWhile_le [of "\<lambda>c. c \<notin> set delim" ?s1] by simp
  moreover have "0 < length ?s1" using ne by simp
  moreover have "length ?s1 \<le> length s" by (rule length_dropWhile_le)
  ultimately have "length rest < length s" by linarith
  then show "((delim, rest), (delim, s)) \<in> measure (\<lambda>(delim, s). length s)" by simp
qed

declare tokens.simps [simp del]

text \<open>
  The grammar of the specification: a quantity is a base-10 unsigned integer
  literal with no extra characters, and it denotes its decimal value.
\<close>

definition clean_uint :: "string \<Rightarrow> bool" where
  "clean_uint tok = (tok \<noteq> [] \<and> list_all isdigit tok)"

text \<open>
  The texts the C library converts in full: white space, then at most one sign,
  then at least one digit, and nothing behind the digits.
\<close>

definition c_number :: "string \<Rightarrow> bool" where
  "c_number tok =
     (let s1 = dropWhile isspace tok;
          ds = (case s1 of [] \<Rightarrow> []
                | c # cs \<Rightarrow> if c = CHR ''-'' \<or> c = CHR ''+'' then cs else s1)
      in ds \<noteq> [] \<and> list_all isdigit ds)"


text \<open>
  The recipe table of the specification, by the tokens that name the molecule:
  the atoms of carbon, oxygen and hydrogen in one molecule.
\<close>

definition recipe :: "string list \<Rightarrow> (nat \<times> nat \<times> nat) option" where
  "recipe mol =
     (if mol = [''WATER''] then Some (0, 1, 2)
      else if mol = [''CARBON'', ''DIOXIDE''] then Some (1, 2, 0)
      else if mol = [''GLUCOSE''] then Some (6, 6, 12)
      else if mol = [''ALCOHOL''] then Some (2, 1, 6)
      else None)"


definition c_too_large :: "string \<Rightarrow> bool" where
  "c_too_large tok = (fst (strtoull tok) > MAX_ATOMS)"

text \<open>
  The validation order of the specification for a DELIVER line, on the tokens of
  the line: the error to report, if any. What makes a quantity token a clean
  number, and what makes it too large, are the two parameters. First the part
  behind the molecule, then the whole line.
\<close>

definition quantity_validation ::
  "(string \<Rightarrow> bool) \<Rightarrow> (string \<Rightarrow> bool) \<Rightarrow> string list \<Rightarrow> string option" where
  "quantity_validation clean large toks =
     (case toks of
        [] \<Rightarrow> Some ''missing number''
      | num # extra \<Rightarrow>
          if extra \<noteq> [] then Some ''too many arguments''
          else if \<not> clean num then Some ''invalid number''
          else if large num then Some ''number too large''
          else None)"

definition deliver_validation ::
  "(string \<Rightarrow> bool) \<Rightarrow> (string \<Rightarrow> bool) \<Rightarrow> string list \<Rightarrow> string option" where
  "deliver_validation clean large toks =
     (case toks of
        [] \<Rightarrow> Some ''invalid command''
      | [cmd] \<Rightarrow> Some ''invalid command''
      | cmd # mol # rest \<Rightarrow>
          if cmd \<noteq> ''DELIVER'' then Some ''invalid command''
          else if mol = ''CARBON'' \<and> (case rest of [] \<Rightarrow> True | nxt # _ \<Rightarrow> nxt \<noteq> ''DIOXIDE'')
            then Some ''invalid molecule type''
          else if mol \<notin> set [''CARBON'', ''WATER'', ''GLUCOSE'', ''ALCOHOL'']
            then Some ''invalid molecule type''
          else quantity_validation clean large (if mol = ''CARBON'' then tl rest else rest))"

text \<open>
  What \<^verbatim>\<open>parse_and_update_udp\<close> does with the tokens behind the molecule: none
  is a missing number, one is the quantity, more are too many.
\<close>

definition deliver_rest :: "string \<Rightarrow> string list \<Rightarrow> server \<Rightarrow> string \<times> server" where
  "deliver_rest full_mol toks s =
     (case toks of
        [] \<Rightarrow> (''ERROR: missing number'' @ [LF], s)
      | [num] \<Rightarrow> deliver_count full_mol num s
      | _ \<Rightarrow> (''ERROR: too many arguments'' @ [LF], s))"

text \<open>
  \<^verbatim>\<open>parse_and_update_udp\<close> behind its reload, as a function of the tokens of the
  line.
\<close>

definition deliver_tokens :: "string list \<Rightarrow> server \<Rightarrow> string \<times> server" where
  "deliver_tokens toks s =
     (case toks of
        cmd # mol # rest \<Rightarrow>
          if cmd \<noteq> ''DELIVER'' then (''ERROR: invalid command'' @ [LF], s)
          else if mol = ''CARBON'' then
            (case rest of
               [] \<Rightarrow> (''ERROR: invalid molecule type'' @ [LF], s)
             | nxt # rest' \<Rightarrow>
                 if nxt \<noteq> ''DIOXIDE'' then (''ERROR: invalid molecule type'' @ [LF], s)
                 else deliver_rest ''CARBON DIOXIDE'' rest' s)
          else if mol \<in> set [''WATER'', ''GLUCOSE'', ''ALCOHOL''] then deliver_rest mol rest s
          else (''ERROR: invalid molecule type'' @ [LF], s)
      | _ \<Rightarrow> (''ERROR: invalid command'' @ [LF], s))"


text \<open>The save file is absent or shorter than one \<^verbatim>\<open>AtomStock\<close>.\<close>

definition no_snapshot :: "disk \<Rightarrow> bool" where
  "no_snapshot d = (case contents d of None \<Rightarrow> True | Some bs \<Rightarrow> length bs < sizeof_AtomStock)"


text \<open>
  What \<^verbatim>\<open>load_atoms_from_file\<close> leaves when it finds no snapshot: the stock set
  to the three values, and the file holding exactly that stock.
\<close>

definition fresh_snapshot :: "u64 \<Rightarrow> u64 \<Rightarrow> u64 \<Rightarrow> server \<Rightarrow> server" where
  "fresh_snapshot c ox h s =
     s\<lparr>atom_stock := \<lparr>carbon = c, oxygen = ox, hydrogen = h\<rparr>,
       save_file := (save_file s)\<lparr>contents :=
         Some (stock_bytes \<lparr>carbon = c, oxygen = ox, hydrogen = h\<rparr>)\<rparr>\<rparr>"

section \<open>What printing and saving leave alone\<close>

lemma atom_stock_printf [simp]: "atom_stock (printf t s) = atom_stock s"
  by (simp add: printf_def)

lemma save_file_printf [simp]: "save_file (printf t s) = save_file s"
  by (simp add: printf_def)

lemma save_file_path_printf [simp]: "save_file_path (printf t s) = save_file_path s"
  by (simp add: printf_def)

lemma atom_stock_print_inventory [simp]: "atom_stock (print_inventory s) = atom_stock s"
  by (simp add: print_inventory_def)

lemma save_file_print_inventory [simp]: "save_file (print_inventory s) = save_file s"
  by (simp add: print_inventory_def)

lemma save_file_path_print_inventory [simp]:
  "save_file_path (print_inventory s) = save_file_path s"
  by (simp add: print_inventory_def)

lemma atom_stock_save_atoms_to_file [simp]: "atom_stock (save_atoms_to_file s) = atom_stock s"
  by (simp add: save_atoms_to_file_def Let_def)

lemma atom_stock_save_if_configured [simp]: "atom_stock (save_if_configured s) = atom_stock s"
  by (simp add: save_if_configured_def)

lemma save_file_path_save_if_configured [simp]:
  "save_file_path (save_if_configured s) = save_file_path s"
  by (simp add: save_if_configured_def save_atoms_to_file_def Let_def)

lemma unat_sub_exact: "(b::u64) \<le> a \<Longrightarrow> unat (a - b) + unat b = unat a"
  by (simp add: unat_sub word_le_nat_alt)

section \<open>DELIVER takes all three amounts or none\<close>

text \<open>
  Claim C1. A DELIVER that reaches the stock check with the required amounts
  \<open>rc\<close>, \<open>ro\<close>, \<open>rh\<close> answers with the error of the first counter that is too small,
  in the order carbon, oxygen, hydrogen, and returns the server state it was given,
  unchanged in every component. When all three counters suffice, each of them goes
  down by exactly its required amount, and the reply reports the new counters.
\<close>

theorem deliver_atoms_all_or_nothing:
  "(carbon (atom_stock s) < rc \<longrightarrow>
      deliver_atoms rc ro rh s = (''ERROR: not enough carbon atoms'' @ [LF], s)) \<and>
   (rc \<le> carbon (atom_stock s) \<and> oxygen (atom_stock s) < ro \<longrightarrow>
      deliver_atoms rc ro rh s = (''ERROR: not enough oxygen atoms'' @ [LF], s)) \<and>
   (rc \<le> carbon (atom_stock s) \<and> ro \<le> oxygen (atom_stock s)
      \<and> hydrogen (atom_stock s) < rh \<longrightarrow>
      deliver_atoms rc ro rh s = (''ERROR: not enough hydrogen atoms'' @ [LF], s)) \<and>
   (rc \<le> carbon (atom_stock s) \<and> ro \<le> oxygen (atom_stock s)
      \<and> rh \<le> hydrogen (atom_stock s) \<longrightarrow>
      (let s' = snd (deliver_atoms rc ro rh s) in
       unat (carbon (atom_stock s')) + unat rc = unat (carbon (atom_stock s)) \<and>
       unat (oxygen (atom_stock s')) + unat ro = unat (oxygen (atom_stock s)) \<and>
       unat (hydrogen (atom_stock s')) + unat rh = unat (hydrogen (atom_stock s)) \<and>
       fst (deliver_atoms rc ro rh s) = atoms_left (atom_stock s')))"
  by (auto simp: deliver_atoms_def try_consume_def Let_def unat_sub_exact not_less)

theorem deliver_atoms_all_or_nothing_witness:
  "deliver_atoms 0 1 9
     (process_start None \<lparr>contents = None, rd_ok = True, wr_ok = True\<rparr>
        \<lparr>atom_stock := \<lparr>carbon = 0, oxygen = 5, hydrogen = 5\<rparr>\<rparr>)
   = (''ERROR: not enough hydrogen atoms'' @ [LF],
      process_start None \<lparr>contents = None, rd_ok = True, wr_ok = True\<rparr>
        \<lparr>atom_stock := \<lparr>carbon = 0, oxygen = 5, hydrogen = 5\<rparr>\<rparr>)
   \<and> atom_stock (snd (deliver_atoms 0 1 2
     (process_start None \<lparr>contents = None, rd_ok = True, wr_ok = True\<rparr>
        \<lparr>atom_stock := \<lparr>carbon = 0, oxygen = 5, hydrogen = 5\<rparr>\<rparr>)))
   = \<lparr>carbon = 0, oxygen = 4, hydrogen = 3\<rparr>"
  using deliver_atoms_all_or_nothing
          [of "process_start None \<lparr>contents = None, rd_ok = True, wr_ok = True\<rparr>
                 \<lparr>atom_stock := \<lparr>carbon = 0, oxygen = 5, hydrogen = 5\<rparr>\<rparr>" 0 1 9]
        deliver_atoms_all_or_nothing
          [of "process_start None \<lparr>contents = None, rd_ok = True, wr_ok = True\<rparr>
                 \<lparr>atom_stock := \<lparr>carbon = 0, oxygen = 5, hydrogen = 5\<rparr>\<rparr>" 0 1 2]
  by (simp add: process_start_def deliver_atoms_def try_consume_def Let_def)

section \<open>The bytes of a snapshot\<close>

lemma ucast_byte: "ucast (ucast (w::u64) :: byte) = take_bit 8 w"
  by (rule bit_word_eqI) (auto simp: bit_simps)

lemma low_byte_split: "ucast (ucast (w::u64) :: byte) + 256 * drop_bit 8 w = w"
  using mod_mult_div_eq [of w 256]
  by (simp add: ucast_byte take_bit_eq_mod drop_bit_eq_div)

lemma byte_step:
  "ucast (ucast (drop_bit k (w::u64)) :: byte) + 256 * drop_bit (8 + k) w = drop_bit k w"
  using low_byte_split [of "drop_bit k w"] by (simp add: add.commute)

lemma drop_bit_64: "drop_bit 64 (w::u64) = 0"
  by (rule bit_word_eqI) (auto simp: bit_simps)

lemma bytes_u64_u64_bytes: "bytes_u64 (u64_bytes w) = w"
  unfolding bytes_u64_def u64_bytes_def
  using byte_step [of 56 w] byte_step [of 48 w] byte_step [of 40 w] byte_step [of 32 w]
        byte_step [of 24 w] byte_step [of 16 w] byte_step [of 8 w] byte_step [of 0 w]
        drop_bit_64 [of w]
  by (simp add: upt_rec)

lemma length_u64_bytes: "length (u64_bytes w) = 8"
  by (simp add: u64_bytes_def)


text \<open>Reading back what was written gives the three counters again.\<close>

lemma bytes_stock_stock_bytes: "bytes_stock (stock_bytes st) = st"
  by (simp add: bytes_stock_def stock_bytes_def length_u64_bytes bytes_u64_u64_bytes)

section \<open>Loading\<close>

lemma load_no_snapshot:
  "no_snapshot (save_file s) \<Longrightarrow>
   load_atoms_from_file c ox h s =
     (if wr_ok (save_file s) then Inr (fresh_snapshot c ox h s) else Inl EXIT_FAILURE)"
  by (auto simp: load_atoms_from_file_def no_snapshot_def fresh_snapshot_def Let_def
           split: option.splits)


section \<open>Replies and states of the two parsers\<close>











lemma console_command_frame:
  "atom_stock (console_command line s) = atom_stock s \<and>
   save_file (console_command line s) = save_file s \<and>
   save_file_path (console_command line s) = save_file_path s"
proof -
  obtain cmd sp1 where a: "strtok_r console_delim
      (if cstr line \<noteq> [] \<and> last (cstr line) = LF then butlast (cstr line) else cstr line)
      = (cmd, sp1)"
    by (cases "strtok_r console_delim
      (if cstr line \<noteq> [] \<and> last (cstr line) = LF then butlast (cstr line) else cstr line)")
  obtain drink sp2 where b: "strtok_r console_delim sp1 = (drink, sp2)"
    by (cases "strtok_r console_delim sp1")
  obtain maybe_drink sp3 where c: "strtok_r console_delim sp2 = (maybe_drink, sp3)"
    by (cases "strtok_r console_delim sp2")
  show ?thesis
    unfolding console_command_def Let_def a b c prod.case
    by (cases drink) simp_all
qed

section \<open>The bound on the counters\<close>













lemma console_ready_after_reload:
  "reload s = Inr s1 \<Longrightarrow>
   \<exists>go s'. console_ready input s = Inr (go, s') \<and> atom_stock s' = atom_stock s1 \<and>
     save_file s' = save_file s1 \<and> save_file_path s' = save_file_path s1"
  by (cases input) (auto simp: console_ready_def console_command_frame)



section \<open>Evaluating replies\<close>

lemma char_of_digits:
  "char_of (48::nat) = CHR ''0''" "char_of (49::nat) = CHR ''1''" "char_of (50::nat) = CHR ''2''"
  "char_of (51::nat) = CHR ''3''" "char_of (52::nat) = CHR ''4''" "char_of (53::nat) = CHR ''5''"
  "char_of (54::nat) = CHR ''6''" "char_of (55::nat) = CHR ''7''" "char_of (56::nat) = CHR ''8''"
  "char_of (57::nat) = CHR ''9''"
  by (simp_all add: char_of_def bit_0)

section \<open>The counters stay within the bound, once they are within it\<close>




section \<open>A file without a snapshot\<close>

text \<open>
  Claim C7, as stated, fails for the reloads: they call
  \<^verbatim>\<open>load_atoms_from_file(save_file_path, 0, 0, 0)\<close>. A server started with
  \<^verbatim>\<open>-c 5 -o 5 -h 5\<close> on an absent file writes the snapshot (5, 5, 5); when the
  file is absent again at a reload, the stock becomes (0, 0, 0), not (5, 5, 5), and
  the zeros are written.
\<close>

theorem reload_counterexample:
  "startup 5 5 5 (process_start (Some ''atoms.bin'') \<lparr>contents = None, rd_ok = True, wr_ok = True\<rparr>)
     = Inr \<lparr>atom_stock = \<lparr>carbon = 5, oxygen = 5, hydrogen = 5\<rparr>,
            save_file_path = Some ''atoms.bin'',
            save_file = \<lparr>contents = Some [5, 0, 0, 0, 0, 0, 0, 0, 5, 0, 0, 0, 0, 0, 0, 0,
                                             5, 0, 0, 0, 0, 0, 0, 0],
                         rd_ok = True, wr_ok = True\<rparr>,
            stdout = []\<rparr>
   \<and> reload \<lparr>atom_stock = \<lparr>carbon = 5, oxygen = 5, hydrogen = 5\<rparr>,
              save_file_path = Some ''atoms.bin'',
              save_file = \<lparr>contents = None, rd_ok = True, wr_ok = True\<rparr>,
              stdout = []\<rparr>
     = Inr \<lparr>atom_stock = \<lparr>carbon = 0, oxygen = 0, hydrogen = 0\<rparr>,
            save_file_path = Some ''atoms.bin'',
            save_file = \<lparr>contents = Some [0, 0, 0, 0, 0, 0, 0, 0, 0, 0, 0, 0, 0, 0, 0, 0,
                                             0, 0, 0, 0, 0, 0, 0, 0],
                         rd_ok = True, wr_ok = True\<rparr>,
            stdout = []\<rparr>"
  by (simp add: startup_def reload_def process_start_def load_atoms_from_file_def Let_def
        sizeof_AtomStock_def stock_bytes_def u64_bytes_def upt_rec)

text \<open>
  Claim C7, amended. With a save file configured that is absent or shorter than one
  snapshot, and that may be written: the start-up sets the stock to the initial
  quantities of the command line and writes them as the snapshot; every later read
  (the reload before an ADD command, a DELIVER command or a console line) sets the
  stock to (0, 0, 0) and writes that. The snapshot written reads back as the stock.
\<close>

theorem no_snapshot_reinitialises:
  assumes "save_file_path s \<noteq> None" and "no_snapshot (save_file s)" and "wr_ok (save_file s)"
  shows "startup c ox h s = Inr (fresh_snapshot c ox h s) \<and>
         reload s = Inr (fresh_snapshot 0 0 0 s) \<and>
         parse_and_update_tcp line s = Inr (add_command line (fresh_snapshot 0 0 0 s)) \<and>
         parse_and_update_udp line s = Inr (deliver_command line (fresh_snapshot 0 0 0 s)) \<and>
         console_ready (Some line) s = Inr (True, console_command line (fresh_snapshot 0 0 0 s)) \<and>
         atom_stock (fresh_snapshot c ox h s) = \<lparr>carbon = c, oxygen = ox, hydrogen = h\<rparr> \<and>
         bytes_stock (the (contents (save_file (fresh_snapshot c ox h s))))
           = \<lparr>carbon = c, oxygen = ox, hydrogen = h\<rparr>"
  using assms
  by (simp add: startup_def reload_def parse_and_update_tcp_def parse_and_update_udp_def
        console_ready_def load_no_snapshot fresh_snapshot_def bytes_stock_stock_bytes)

theorem no_snapshot_reinitialises_witness:
  "save_file_path (process_start (Some ''atoms.bin'')
       \<lparr>contents = Some [1, 2, 3], rd_ok = True, wr_ok = True\<rparr>) \<noteq> None
   \<and> no_snapshot \<lparr>contents = Some [1, 2, 3], rd_ok = True, wr_ok = True\<rparr>
   \<and> startup 4 5 6 (process_start (Some ''atoms.bin'')
       \<lparr>contents = Some [1, 2, 3], rd_ok = True, wr_ok = True\<rparr>)
     = Inr (fresh_snapshot 4 5 6 (process_start (Some ''atoms.bin'')
       \<lparr>contents = Some [1, 2, 3], rd_ok = True, wr_ok = True\<rparr>))
   \<and> reload (process_start (Some ''atoms.bin'')
       \<lparr>contents = Some [1, 2, 3], rd_ok = True, wr_ok = True\<rparr>)
     = Inr (fresh_snapshot 0 0 0 (process_start (Some ''atoms.bin'')
       \<lparr>contents = Some [1, 2, 3], rd_ok = True, wr_ok = True\<rparr>))"
  using no_snapshot_reinitialises
          [of "process_start (Some ''atoms.bin'')
                 \<lparr>contents = Some [1, 2, 3], rd_ok = True, wr_ok = True\<rparr>" 4 5 6 "''ADD CARBON 1''"]
  by (simp add: process_start_def no_snapshot_def sizeof_AtomStock_def)

section \<open>The console\<close>

text \<open>
  Claim C8, as stated, fails when a save file is configured: the console branch
  reloads before it reads the line. With the file absent, \<^verbatim>\<open>GEN VODKA\<close> on the
  stock (8, 8, 20) sets the three counters to zero, writes the file, and reports
  that no vodka can be made.
\<close>

theorem console_counterexample:
  "console_ready (Some (''GEN VODKA'' @ [LF]))
     \<lparr>atom_stock = \<lparr>carbon = 8, oxygen = 8, hydrogen = 20\<rparr>,
      save_file_path = Some ''atoms.bin'',
      save_file = \<lparr>contents = None, rd_ok = True, wr_ok = True\<rparr>,
      stdout = []\<rparr>
   = Inr (True,
      \<lparr>atom_stock = \<lparr>carbon = 0, oxygen = 0, hydrogen = 0\<rparr>,
       save_file_path = Some ''atoms.bin'',
       save_file = \<lparr>contents = Some [0, 0, 0, 0, 0, 0, 0, 0, 0, 0, 0, 0, 0, 0, 0, 0,
                                        0, 0, 0, 0, 0, 0, 0, 0],
                    rd_ok = True, wr_ok = True\<rparr>,
       stdout = [''You can make up to 0 VODKA(s)'' @ [LF]]\<rparr>)"
  by (simp add: console_ready_def reload_def load_atoms_from_file_def Let_def
        sizeof_AtomStock_def stock_bytes_def u64_bytes_def upt_rec
        console_command_def cstr_def strtok_r_def console_delim_def printf_def
        can_make_def llu_def show_nat.simps char_of_digits)

text \<open>
  Claim C8, amended. Without a save file, handling a console line (or the end of
  the console input) changes neither a counter nor the file. With a save file the
  branch first reloads, which replaces the counters by the snapshot of the file
  or, without a snapshot, sets them to zero and writes the file; what follows the
  reload changes neither a counter nor the file.
\<close>

theorem console_reads_only:
  "(save_file_path s = None \<longrightarrow>
      (\<exists>go s'. console_ready input s = Inr (go, s') \<and> atom_stock s' = atom_stock s \<and>
         save_file s' = save_file s)) \<and>
   (\<forall>s1. reload s = Inr s1 \<longrightarrow>
      (\<exists>go s'. console_ready input s = Inr (go, s') \<and> atom_stock s' = atom_stock s1 \<and>
         save_file s' = save_file s1))"
proof -
  have "save_file_path s = None \<Longrightarrow> reload s = Inr s"
    by (simp add: reload_def)
  then show ?thesis
    using console_ready_after_reload [of s _ input] by blast
qed

theorem console_reads_only_witness:
  "(\<exists>go s'. console_ready (Some (''GEN VODKA'' @ [LF]))
       (process_start None \<lparr>contents = None, rd_ok = True, wr_ok = True\<rparr>
          \<lparr>atom_stock := \<lparr>carbon = 8, oxygen = 8, hydrogen = 20\<rparr>\<rparr>) = Inr (go, s')
      \<and> atom_stock s' = \<lparr>carbon = 8, oxygen = 8, hydrogen = 20\<rparr>
      \<and> save_file s' = \<lparr>contents = None, rd_ok = True, wr_ok = True\<rparr>)"
  using console_reads_only
          [of "process_start None \<lparr>contents = None, rd_ok = True, wr_ok = True\<rparr>
                 \<lparr>atom_stock := \<lparr>carbon = 8, oxygen = 8, hydrogen = 20\<rparr>\<rparr>"
              "Some (''GEN VODKA'' @ [LF])"]
  by (simp add: process_start_def)

section \<open>Tokens\<close>

lemma strtok_r_Nil [simp]: "strtok_r d [] = (None, [])"
  by (simp add: strtok_r_def)

lemma strtok_r_None: "strtok_r d s = (None, r) \<Longrightarrow> r = [] \<and> tokens d s = []"
  by (auto simp: tokens.simps [of d s]) (auto simp: strtok_r_def Let_def split: if_splits)

lemma strtok_r_Some: "strtok_r d s = (Some t, r) \<Longrightarrow> tokens d s = t # tokens d r"
  by (simp add: tokens.simps [of d s])

lemma tokens_Nil [simp]: "tokens d [] = []"
  by (simp add: tokens.simps [of d "[]"])

text \<open>The four equations that say what the tokens of a line are.\<close>

lemma tokens_delim_Cons: "c \<in> set d \<Longrightarrow> tokens d (c # s) = tokens d s"
  by (simp add: tokens.simps [of d "c # s"] tokens.simps [of d s] strtok_r_def)

lemma takeWhile_append_delim:
  "set t \<inter> set d = {} \<Longrightarrow> c \<in> set d \<Longrightarrow>
   takeWhile (\<lambda>c. c \<notin> set d) (t @ c # s) = t \<and> dropWhile (\<lambda>c. c \<notin> set d) (t @ c # s) = c # s"
  by (induction t) auto

lemma strtok_r_token_append:
  assumes "t \<noteq> []" and "set t \<inter> set d = {}" and "c \<in> set d"
  shows "strtok_r d (t @ c # s) = (Some t, s)"
proof -
  from assms(1,2) obtain x xs where t: "t = x # xs" and x: "x \<notin> set d"
    by (cases t) auto
  then have "dropWhile (\<lambda>c. c \<in> set d) (t @ c # s) = t @ c # s" by simp
  with takeWhile_append_delim [OF assms(2,3), of s] t show ?thesis
    by (simp add: strtok_r_def)
qed

lemma strtok_r_token:
  assumes "t \<noteq> []" and "set t \<inter> set d = {}"
  shows "strtok_r d t = (Some t, [])"
proof -
  from assms obtain x xs where t: "t = x # xs" and x: "x \<notin> set d"
    by (cases t) auto
  then have "dropWhile (\<lambda>c. c \<in> set d) t = t" by simp
  moreover from assms(2) have "takeWhile (\<lambda>c. c \<notin> set d) t = t"
    by (auto simp: takeWhile_eq_all_conv)
  moreover from assms(2) have "dropWhile (\<lambda>c. c \<notin> set d) t = []"
    by auto
  ultimately show ?thesis using t by (simp add: strtok_r_def)
qed

lemma tokens_token_append:
  "t \<noteq> [] \<Longrightarrow> set t \<inter> set d = {} \<Longrightarrow> c \<in> set d \<Longrightarrow> tokens d (t @ c # s) = t # tokens d s"
  by (simp add: strtok_r_Some [OF strtok_r_token_append])

lemma tokens_token: "t \<noteq> [] \<Longrightarrow> set t \<inter> set d = {} \<Longrightarrow> tokens d t = [t]"
  using strtok_r_Some [OF strtok_r_token, of t d] by simp

section \<open>The parsers on the tokens of the line\<close>

lemma add_command_tokens:
  "add_command line s =
     (case tokens net_delim (copy_line line) of
        cmd # ty # num # extra \<Rightarrow>
          if cmd \<noteq> ''ADD'' then (''ERROR: invalid command'' @ [LF], s)
          else if atom_type_of ty = TYPE_UNKNOWN then (''ERROR: invalid atom type'' @ [LF], s)
          else add_quantity (atom_type_of ty) num s
      | _ \<Rightarrow> (''ERROR: invalid command'' @ [LF], s))"
proof -
  obtain t1 sp1 where a: "strtok_r net_delim (copy_line line) = (t1, sp1)"
    by (cases "strtok_r net_delim (copy_line line)")
  obtain t2 sp2 where b: "strtok_r net_delim sp1 = (t2, sp2)"
    by (cases "strtok_r net_delim sp1")
  obtain t3 sp3 where c: "strtok_r net_delim sp2 = (t3, sp3)"
    by (cases "strtok_r net_delim sp2")
  show ?thesis
  proof (cases t1)
    case None
    with a show ?thesis
      using strtok_r_None [of net_delim "copy_line line" sp1]
      by (simp add: add_command_def Let_def)
  next
    case t1: (Some cmd)
    show ?thesis
    proof (cases t2)
      case None
      with a b t1 show ?thesis
        using strtok_r_None [of net_delim sp1 sp2] strtok_r_Some [of net_delim "copy_line line" cmd sp1]
        by (simp add: add_command_def Let_def)
    next
      case t2: (Some ty)
      show ?thesis
      proof (cases t3)
        case None
        with a b c t1 t2 show ?thesis
          using strtok_r_None [of net_delim sp2 sp3] strtok_r_Some [of net_delim sp1 ty sp2]
            strtok_r_Some [of net_delim "copy_line line" cmd sp1]
          by (simp add: add_command_def Let_def)
      next
        case (Some num)
        with a b c t1 t2 show ?thesis
          using strtok_r_Some [of net_delim sp2 num sp3] strtok_r_Some [of net_delim sp1 ty sp2]
            strtok_r_Some [of net_delim "copy_line line" cmd sp1]
          by (simp add: add_command_def Let_def)
      qed
    qed
  qed
qed

lemma deliver_quantity_tokens:
  "deliver_quantity full_mol sp s = deliver_rest full_mol (tokens net_delim sp) s"
proof -
  obtain t1 sp1 where a: "strtok_r net_delim sp = (t1, sp1)"
    by (cases "strtok_r net_delim sp")
  obtain t2 sp2 where b: "strtok_r net_delim sp1 = (t2, sp2)"
    by (cases "strtok_r net_delim sp1")
  show ?thesis
  proof (cases t1)
    case None
    with a show ?thesis
      using strtok_r_None [of net_delim sp sp1]
      by (simp add: deliver_quantity_def deliver_rest_def Let_def)
  next
    case t1: (Some num)
    show ?thesis
    proof (cases t2)
      case None
      with a b t1 show ?thesis
        using strtok_r_None [of net_delim sp1 sp2] strtok_r_Some [of net_delim sp num sp1]
        by (simp add: deliver_quantity_def deliver_rest_def Let_def)
    next
      case (Some extra)
      with a b t1 show ?thesis
        using strtok_r_Some [of net_delim sp1 extra sp2] strtok_r_Some [of net_delim sp num sp1]
        by (simp add: deliver_quantity_def deliver_rest_def Let_def)
    qed
  qed
qed

lemma molecule_name_tokens:
  "molecule_name mol sp = None \<and>
     (mol = ''CARBON'' \<and> (case tokens net_delim sp of [] \<Rightarrow> True | nxt # _ \<Rightarrow> nxt \<noteq> ''DIOXIDE'')
      \<or> mol \<notin> set [''CARBON'', ''WATER'', ''GLUCOSE'', ''ALCOHOL''])
   \<or> (\<exists>sp'. molecule_name mol sp = Some (''CARBON DIOXIDE'', sp') \<and> mol = ''CARBON'' \<and>
         tokens net_delim sp = ''DIOXIDE'' # tokens net_delim sp')
   \<or> molecule_name mol sp = Some (mol, sp) \<and> mol \<in> set [''WATER'', ''GLUCOSE'', ''ALCOHOL'']"
proof (cases "mol = ''CARBON''")
  case True
  obtain t1 sp1 where a: "strtok_r net_delim sp = (t1, sp1)"
    by (cases "strtok_r net_delim sp")
  show ?thesis
  proof (cases t1)
    case None
    with a True show ?thesis
      using strtok_r_None [of net_delim sp sp1] by (simp add: molecule_name_def)
  next
    case (Some nxt)
    with a True show ?thesis
      using strtok_r_Some [of net_delim sp nxt sp1] by (simp add: molecule_name_def)
  qed
next
  case False
  then show ?thesis by (simp add: molecule_name_def)
qed

lemma deliver_command_tokens:
  "deliver_command line s =
     (case tokens net_delim (copy_line line) of
        cmd # mol # rest \<Rightarrow>
          if cmd \<noteq> ''DELIVER'' then (''ERROR: invalid command'' @ [LF], s)
          else if mol = ''CARBON'' then
            (case rest of
               [] \<Rightarrow> (''ERROR: invalid molecule type'' @ [LF], s)
             | nxt # rest' \<Rightarrow>
                 if nxt \<noteq> ''DIOXIDE'' then (''ERROR: invalid molecule type'' @ [LF], s)
                 else deliver_rest ''CARBON DIOXIDE'' rest' s)
          else if mol \<in> set [''WATER'', ''GLUCOSE'', ''ALCOHOL''] then deliver_rest mol rest s
          else (''ERROR: invalid molecule type'' @ [LF], s)
      | _ \<Rightarrow> (''ERROR: invalid command'' @ [LF], s))"
proof -
  obtain t1 sp1 where a: "strtok_r net_delim (copy_line line) = (t1, sp1)"
    by (cases "strtok_r net_delim (copy_line line)")
  obtain t2 sp2 where b: "strtok_r net_delim sp1 = (t2, sp2)"
    by (cases "strtok_r net_delim sp1")
  show ?thesis
  proof (cases t1)
    case None
    with a show ?thesis
      using strtok_r_None [of net_delim "copy_line line" sp1]
      by (simp add: deliver_command_def Let_def)
  next
    case t1: (Some cmd)
    show ?thesis
    proof (cases t2)
      case None
      with a b t1 show ?thesis
        using strtok_r_None [of net_delim sp1 sp2] strtok_r_Some [of net_delim "copy_line line" cmd sp1]
        by (simp add: deliver_command_def Let_def)
    next
      case t2: (Some mol)
      have toks: "tokens net_delim (copy_line line) = cmd # mol # tokens net_delim sp2"
        using a b t1 t2 strtok_r_Some [of net_delim sp1 mol sp2]
          strtok_r_Some [of net_delim "copy_line line" cmd sp1] by simp
      have dc: "deliver_command line s =
         (if cmd \<noteq> ''DELIVER'' then (''ERROR: invalid command'' @ [LF], s)
          else (case molecule_name mol sp2 of
                  None \<Rightarrow> (''ERROR: invalid molecule type'' @ [LF], s)
                | Some (full_mol, saveptr3) \<Rightarrow> deliver_quantity full_mol saveptr3 s))"
        using a b t1 t2 by (simp add: deliver_command_def Let_def)
      from molecule_name_tokens [of mol sp2] show ?thesis
      proof (elim disjE conjE exE)
        assume "molecule_name mol sp2 = None" "mol = ''CARBON''"
          "case tokens net_delim sp2 of [] \<Rightarrow> True | nxt # x \<Rightarrow> nxt \<noteq> ''DIOXIDE''"
        then show ?thesis
          unfolding dc toks by (simp split: list.splits)
      next
        assume "molecule_name mol sp2 = None"
          "mol \<notin> set [''CARBON'', ''WATER'', ''GLUCOSE'', ''ALCOHOL'']"
        then show ?thesis
          unfolding dc toks by simp
      next
        fix sp'
        assume "molecule_name mol sp2 = Some (''CARBON DIOXIDE'', sp')" "mol = ''CARBON''"
          "tokens net_delim sp2 = ''DIOXIDE'' # tokens net_delim sp'"
        then show ?thesis
          unfolding dc toks by (simp add: deliver_quantity_tokens)
      next
        assume "molecule_name mol sp2 = Some (mol, sp2)"
          "mol \<in> set [''WATER'', ''GLUCOSE'', ''ALCOHOL'']"
        then show ?thesis
          unfolding dc toks by (auto simp: deliver_quantity_tokens)
      qed
    qed
  qed
qed

section \<open>Numbers\<close>

lemma isdigit_not_space_sign:
  "isdigit c \<Longrightarrow> \<not> isspace c \<and> c \<noteq> CHR ''-'' \<and> c \<noteq> CHR ''+''"
  by (auto simp: isdigit_def isspace_def)

lemma unat_ULLONG_MAX: "unat ULLONG_MAX = 18446744073709551615"
  by (simp add: ULLONG_MAX_def)

lemma unat_MAX_ATOMS: "unat MAX_ATOMS = 1000000000000000000"
  by (simp add: MAX_ATOMS_def)

text \<open>On a token of digits the conversion reads the whole token and saturates.\<close>

lemma strtoull_clean:
  assumes "clean_uint num"
  shows "strtoull num =
           (if dec_val num > unat ULLONG_MAX then ULLONG_MAX else of_nat (dec_val num),
            length num)"
proof -
  from assms obtain x xs where num: "num = x # xs" and x: "isdigit x" and all: "list_all isdigit num"
    by (cases num) (auto simp: clean_uint_def)
  from x have nx: "\<not> isspace x" "x \<noteq> CHR ''-''" "x \<noteq> CHR ''+''"
    using isdigit_not_space_sign by auto
  have tw: "takeWhile isdigit num = num"
    using all by (simp add: takeWhile_eq_all_conv list_all_iff)
  from nx have "takeWhile isspace num = []" "dropWhile isspace num = num"
    by (simp_all add: num)
  with nx tw show ?thesis
    unfolding strtoull_def Let_def by (simp add: num)
qed

text \<open>The conversion reads a whole token exactly when the token is a C number.\<close>

lemma c_number_strtoull:
  "c_number tok \<longleftrightarrow> snd (strtoull tok) \<noteq> 0 \<and> \<not> snd (strtoull tok) < length tok"
proof -
  define ws where "ws = takeWhile isspace tok"
  define s1 where "s1 = dropWhile isspace tok"
  define sg :: nat where
    "sg = (case s1 of [] \<Rightarrow> 0 | c # _ \<Rightarrow> if c = CHR ''-'' \<or> c = CHR ''+'' then 1 else 0)"
  define rest where "rest = drop sg s1"
  define ds where "ds = takeWhile isdigit rest"
  have len: "length tok = length ws + length s1"
    unfolding ws_def s1_def
    by (metis length_append takeWhile_dropWhile_id)
  have sg_le: "length s1 = sg + length rest"
    unfolding rest_def sg_def by (cases s1) auto
  have key: "(case s1 of [] \<Rightarrow> [] | c # cs \<Rightarrow> if c = CHR ''-'' \<or> c = CHR ''+'' then cs else s1)
      = rest"
    unfolding rest_def sg_def by (cases s1) auto
  have cn: "c_number tok \<longleftrightarrow> rest \<noteq> [] \<and> list_all isdigit rest"
    unfolding c_number_def Let_def s1_def [symmetric] key by simp
  have "snd (strtoull tok) =
      (if takeWhile isdigit (drop sg s1) = [] then 0
       else length ws + sg + length (takeWhile isdigit (drop sg s1)))"
    unfolding strtoull_def Let_def s1_def [symmetric] ws_def [symmetric] sg_def by simp
  then have st: "snd (strtoull tok) = (if ds = [] then 0 else length ws + sg + length ds)"
    unfolding ds_def rest_def .
  have all: "list_all isdigit rest \<longleftrightarrow> ds = rest"
    unfolding ds_def by (simp add: takeWhile_eq_all_conv list_all_iff)
  have dl: "length ds \<le> length rest"
    unfolding ds_def by (rule length_takeWhile_le)
  have eq: "ds = rest \<longleftrightarrow> length ds = length rest"
  proof
    assume "length ds = length rest"
    then show "ds = rest"
      unfolding ds_def
      by (metis append_eq_conv_conj takeWhile_dropWhile_id take_all order_refl)
  qed simp
  show ?thesis
  proof (cases "ds = []")
    case True
    then show ?thesis using cn st all by auto
  next
    case False
    then have "rest \<noteq> []" unfolding ds_def by auto
    with False show ?thesis using cn st all eq dl len sg_le by auto
  qed
qed


section \<open>Arithmetic in 64 bits\<close>

lemma unat_of_nat_u64: "n \<le> 18446744073709551615 \<Longrightarrow> unat (of_nat n :: u64) = n"
  by (simp add: unat_of_nat)

text \<open>The value the conversion returns exceeds the maximum exactly when the number does.\<close>

lemma saturated_gt_MAX:
  "(if n > unat ULLONG_MAX then ULLONG_MAX else of_nat n) > MAX_ATOMS
   \<longleftrightarrow> n > 1000000000000000000"
proof (cases "n > unat ULLONG_MAX")
  case True
  then show ?thesis
    by (simp add: unat_ULLONG_MAX word_less_nat_alt unat_MAX_ATOMS)
next
  case False
  then have "unat (of_nat n :: u64) = n"
    by (simp add: unat_ULLONG_MAX unat_of_nat_u64)
  with False show ?thesis
    by (simp add: word_less_nat_alt unat_MAX_ATOMS)
qed



section \<open>ADD on a quantity of digits\<close>




lemma try_add_replies:
  "try_add t v st = Inl e \<Longrightarrow>
   e = ''ERROR: capacity exceeded'' @ [LF] \<or> e = ''ERROR: unknown error'' @ [LF]"
  by (cases t) (auto split: if_splits)

lemma add_quantity_replies:
  "fst (add_quantity t num s) = ''ERROR: invalid number'' @ [LF] \<or>
   fst (add_quantity t num s) = ''ERROR: number too large'' @ [LF] \<or>
   fst (add_quantity t num s) = ''ERROR: capacity exceeded'' @ [LF] \<or>
   fst (add_quantity t num s) = ''ERROR: unknown error'' @ [LF] \<or>
   (\<exists>st. fst (add_quantity t num s) = atoms_now st)"
  unfolding add_quantity_def Let_def
  by (auto split: prod.splits sum.splits dest: try_add_replies)

lemma add_command_replies:
  "fst (add_command line s) = ''ERROR: invalid command'' @ [LF] \<or>
   fst (add_command line s) = ''ERROR: invalid atom type'' @ [LF] \<or>
   fst (add_command line s) = ''ERROR: invalid number'' @ [LF] \<or>
   fst (add_command line s) = ''ERROR: number too large'' @ [LF] \<or>
   fst (add_command line s) = ''ERROR: capacity exceeded'' @ [LF] \<or>
   fst (add_command line s) = ''ERROR: unknown error'' @ [LF] \<or>
   (\<exists>st. fst (add_command line s) = atoms_now st)"
  unfolding add_command_tokens
  using add_quantity_replies
  by (auto split: list.splits)



lemmas token_eval_defs = tokens.simps strtok_r_def net_delim_def copy_line_def cstr_def MAXBUF_def

section \<open>ADD: the quantity and the capacity\<close>




section \<open>ADD: what counts as a number\<close>




section \<open>ADD: tokens behind the quantity\<close>

text \<open>
  Claim C10. \<^verbatim>\<open>parse_and_update_tcp\<close> looks at the first three tokens only: a
  line with further tokens behind the quantity gets the reply, and leaves the
  state, of the line with the same three tokens alone; and no ADD line is ever
  answered with \<^verbatim>\<open>ERROR: too many arguments\<close>.
\<close>

theorem add_ignores_extra_tokens:
  assumes "tokens net_delim (copy_line line) = cmd # ty # num # extra"
    and "tokens net_delim (copy_line line') = [cmd, ty, num]"
  shows "add_command line s = add_command line' s \<and>
         parse_and_update_tcp line s = parse_and_update_tcp line' s \<and>
         fst (add_command line s) \<noteq> ''ERROR: too many arguments'' @ [LF]"
proof -
  have eq: "\<And>s. add_command line s = add_command line' s"
    using assms by (simp add: add_command_tokens)
  have "fst (add_command line s) \<noteq> ''ERROR: too many arguments'' @ [LF]"
    using add_command_replies [of line s] by (auto simp: atoms_now_def)
  with eq show ?thesis
    by (cases "reload s") (simp_all add: parse_and_update_tcp_def)
qed

theorem add_ignores_extra_tokens_witness:
  "add_command (''ADD HYDROGEN 7 and more'' @ [LF])
       (process_start None \<lparr>contents = None, rd_ok = True, wr_ok = True\<rparr>)
   = add_command (''ADD HYDROGEN 7'' @ [LF])
       (process_start None \<lparr>contents = None, rd_ok = True, wr_ok = True\<rparr>)
   \<and> tokens net_delim (copy_line (''ADD HYDROGEN 7 and more'' @ [LF]))
       = [''ADD'', ''HYDROGEN'', ''7'', ''and'', ''more'']"
proof -
  have tk: "tokens net_delim (copy_line (''ADD HYDROGEN 7 and more'' @ [LF]))
      = ''ADD'' # ''HYDROGEN'' # ''7'' # [''and'', ''more'']"
    by (simp add: token_eval_defs)
  have tk': "tokens net_delim (copy_line (''ADD HYDROGEN 7'' @ [LF]))
      = [''ADD'', ''HYDROGEN'', ''7'']"
    by (simp add: token_eval_defs)
  from add_ignores_extra_tokens [OF tk tk'] tk show ?thesis by simp
qed

section \<open>DELIVER on a quantity of digits\<close>

lemma deliver_command_deliver_tokens:
  "deliver_command line s = deliver_tokens (tokens net_delim (copy_line line)) s"
  unfolding deliver_command_tokens deliver_tokens_def ..

lemma deliver_count_clean:
  assumes "clean_uint num"
  shows "deliver_count m num s =
     (if dec_val num > 1000000000000000000 then (''ERROR: number too large'' @ [LF], s)
      else (case required_atoms m (of_nat (dec_val num)) of
              None \<Rightarrow> (''ERROR: unknown molecule'' @ [LF], s)
            | Some (req_carbon, req_oxygen, req_hydrogen) \<Rightarrow>
                deliver_atoms req_carbon req_oxygen req_hydrogen s))"
proof -
  from assms have ne: "num \<noteq> []" by (simp add: clean_uint_def)
  show ?thesis
  proof (cases "dec_val num > 1000000000000000000")
    case True
    with ne show ?thesis
      unfolding deliver_count_def strtoull_clean [OF assms]
      by (simp add: saturated_gt_MAX)
  next
    case False
    then have "\<not> dec_val num > unat ULLONG_MAX" by (simp add: unat_ULLONG_MAX)
    with False ne show ?thesis
      unfolding deliver_count_def strtoull_clean [OF assms]
      using saturated_gt_MAX [of "dec_val num"] by simp
  qed
qed

lemma recipe_cases:
  assumes "recipe mol = Some (rc, ro, rh)"
  shows "mol = [''WATER''] \<and> (rc, ro, rh) = (0, 1, 2) \<or>
         mol = [''CARBON'', ''DIOXIDE''] \<and> (rc, ro, rh) = (1, 2, 0) \<or>
         mol = [''GLUCOSE''] \<and> (rc, ro, rh) = (6, 6, 12) \<or>
         mol = [''ALCOHOL''] \<and> (rc, ro, rh) = (2, 1, 6)"
  using assms by (auto simp: recipe_def split: if_splits)

lemma recipe_small: "recipe mol = Some (rc, ro, rh) \<Longrightarrow> rc \<le> 12 \<and> ro \<le> 12 \<and> rh \<le> 12"
  by (auto dest!: recipe_cases)

text \<open>
  A line that names a molecule of the table and a quantity of digits reaches the
  stock check with the products of the table and the quantity.
\<close>

lemma deliver_command_recipe:
  assumes "tokens net_delim (copy_line line) = ''DELIVER'' # mol @ [num]"
    and "recipe mol = Some (rc, ro, rh)" and "clean_uint num"
  shows "deliver_command line s =
     (if dec_val num > 1000000000000000000 then (''ERROR: number too large'' @ [LF], s)
      else deliver_atoms (of_nat (rc * dec_val num)) (of_nat (ro * dec_val num))
             (of_nat (rh * dec_val num)) s)"
  using recipe_cases [OF assms(2)] assms(1)
  by (elim disjE conjE)
     (simp_all add: deliver_command_deliver_tokens deliver_tokens_def deliver_rest_def
        deliver_count_clean [OF assms(3)] required_atoms_def)

lemma product_exact:
  assumes "k \<le> 12" and "q \<le> 1000000000000000000"
  shows "k * q < 18446744073709551616 \<and> unat (of_nat (k * q) :: u64) = k * q"
proof -
  have "k * q \<le> 12 * 1000000000000000000"
    using assms by (rule mult_le_mono)
  then have "k * q \<le> 18446744073709551615" by simp
  then show ?thesis using unat_of_nat_u64 [of "k * q"] by (simp del: of_nat_mult)
qed

lemma product_overflow_large:
  assumes "k \<le> 12" and "k * q \<ge> 18446744073709551616"
  shows "q > (1000000000000000000 :: nat)"
proof (rule ccontr)
  assume "\<not> q > 1000000000000000000"
  then have "q \<le> 1000000000000000000" by simp
  with product_exact [OF assms(1)] assms(2) show False by fastforce
qed

lemma of_nat_le_word:
  "n \<le> 18446744073709551615 \<Longrightarrow> (of_nat n :: u64) \<le> w \<longleftrightarrow> n \<le> unat w"
  by (simp add: word_le_nat_alt unat_of_nat_u64)




section \<open>DELIVER: the order of the checks\<close>

lemma required_atoms_Some:
  "m \<in> set [''WATER'', ''CARBON DIOXIDE'', ''GLUCOSE'', ''ALCOHOL''] \<Longrightarrow>
   \<exists>rc ro rh. required_atoms m v = Some (rc, ro, rh)"
  by (simp add: required_atoms_def) blast

lemma deliver_count_c_number:
  "(\<not> c_number num \<longrightarrow> deliver_count m num s = (''ERROR: invalid number'' @ [LF], s)) \<and>
   (c_number num \<and> fst (strtoull num) > MAX_ATOMS \<longrightarrow>
      deliver_count m num s = (''ERROR: number too large'' @ [LF], s)) \<and>
   (c_number num \<and> \<not> fst (strtoull num) > MAX_ATOMS \<and>
    m \<in> set [''WATER'', ''CARBON DIOXIDE'', ''GLUCOSE'', ''ALCOHOL''] \<longrightarrow>
      (\<exists>rc ro rh. deliver_count m num s = deliver_atoms rc ro rh s))"
proof -
  obtain v e where st: "strtoull num = (v, e)" by (cases "strtoull num")
  then have cn: "c_number num \<longleftrightarrow> e \<noteq> 0 \<and> \<not> e < length num"
    by (simp add: c_number_strtoull)
  have a: "\<not> c_number num \<Longrightarrow> deliver_count m num s = (''ERROR: invalid number'' @ [LF], s)"
    using cn st by (auto simp: deliver_count_def)
  have b: "c_number num \<Longrightarrow> v > MAX_ATOMS \<Longrightarrow>
      deliver_count m num s = (''ERROR: number too large'' @ [LF], s)"
    using cn st by (simp add: deliver_count_def)
  have c: "\<exists>rc ro rh. deliver_count m num s = deliver_atoms rc ro rh s"
    if "c_number num" and "\<not> v > MAX_ATOMS"
      and "m \<in> set [''WATER'', ''CARBON DIOXIDE'', ''GLUCOSE'', ''ALCOHOL'']"
  proof -
    from required_atoms_Some [OF that(3), of v] obtain rc ro rh
      where "required_atoms m v = Some (rc, ro, rh)" by blast
    with that(1,2) cn st have "deliver_count m num s = deliver_atoms rc ro rh s"
      by (simp add: deliver_count_def)
    then show ?thesis by blast
  qed
  from a b c st show ?thesis by simp
qed

lemma deliver_rest_validation:
  assumes "m \<in> set [''WATER'', ''CARBON DIOXIDE'', ''GLUCOSE'', ''ALCOHOL'']"
  shows "(\<forall>e. quantity_validation c_number c_too_large toks = Some e \<longrightarrow>
            deliver_rest m toks s = (''ERROR: '' @ e @ [LF], s)) \<and>
         (quantity_validation c_number c_too_large toks = None \<longrightarrow>
            (\<exists>rc ro rh. deliver_rest m toks s = deliver_atoms rc ro rh s))"
proof (cases toks)
  case Nil
  then show ?thesis
    by (simp add: quantity_validation_def deliver_rest_def)
next
  case (Cons num extra)
  show ?thesis
  proof (cases extra)
    case Nil
    with Cons deliver_count_c_number [of num m s] assms show ?thesis
      by (auto simp: quantity_validation_def deliver_rest_def c_too_large_def)
  next
    case (Cons x xs)
    with \<open>toks = num # extra\<close> show ?thesis
      by (simp add: quantity_validation_def deliver_rest_def)
  qed
qed

lemma deliver_tokens_validation:
  "(\<forall>e. deliver_validation c_number c_too_large toks = Some e \<longrightarrow>
      deliver_tokens toks s = (''ERROR: '' @ e @ [LF], s)) \<and>
   (deliver_validation c_number c_too_large toks = None \<longrightarrow>
      (\<exists>rc ro rh. deliver_tokens toks s = deliver_atoms rc ro rh s))"
proof (cases toks)
  case Nil
  then show ?thesis by (simp add: deliver_validation_def deliver_tokens_def)
next
  case t1: (Cons cmd toks1)
  show ?thesis
  proof (cases toks1)
    case Nil
    with t1 show ?thesis by (simp add: deliver_validation_def deliver_tokens_def)
  next
    case t2: (Cons mol rest)
    show ?thesis
    proof (cases "cmd = ''DELIVER''")
      case False
      with t1 t2 show ?thesis by (simp add: deliver_validation_def deliver_tokens_def)
    next
      case cmd: True
      show ?thesis
      proof (cases "mol = ''CARBON''")
        case carbon: True
        show ?thesis
        proof (cases rest)
          case Nil
          with t1 t2 cmd carbon show ?thesis
            by (simp add: deliver_validation_def deliver_tokens_def)
        next
          case (Cons nxt rest')
          show ?thesis
          proof (cases "nxt = ''DIOXIDE''")
            case False
            with t1 t2 cmd carbon Cons show ?thesis
              by (simp add: deliver_validation_def deliver_tokens_def)
          next
            case True
            have "''CARBON DIOXIDE'' \<in> set [''WATER'', ''CARBON DIOXIDE'', ''GLUCOSE'', ''ALCOHOL'']"
              by simp
            from deliver_rest_validation [OF this, of rest' s] t1 t2 cmd carbon Cons True
            show ?thesis
              by (simp add: deliver_validation_def deliver_tokens_def)
          qed
        qed
      next
        case nc: False
        show ?thesis
        proof (cases "mol \<in> set [''WATER'', ''GLUCOSE'', ''ALCOHOL'']")
          case False
          with t1 t2 cmd nc show ?thesis
            by (simp add: deliver_validation_def deliver_tokens_def)
        next
          case True
          then have "mol \<in> set [''WATER'', ''CARBON DIOXIDE'', ''GLUCOSE'', ''ALCOHOL'']"
            by auto
          from deliver_rest_validation [OF this, of rest s] t1 t2 cmd nc True
          show ?thesis
            by (simp add: deliver_validation_def deliver_tokens_def)
        qed
      qed
    qed
  qed
qed





section \<open>DELIVER: the recipes\<close>



section \<open>DELIVER: the products do not wrap\<close>

text \<open>
  Claim C6. For a DELIVER line that names a molecule of the recipe table and a
  quantity of digits denoting \<open>q\<close>: when one of the products of \<open>q\<close> with the
  recipe does not fit in 64 bits, or \<open>q\<close> exceeds \<open>10^18\<close>, the reply is
  \<^verbatim>\<open>ERROR: number too large\<close> and the state is returned as it was; otherwise the
  stock check receives the three products themselves: each fits in 64 bits, so the
  multiplication of lines 317 to 342 has not wrapped.
\<close>

theorem deliver_products_exact:
  assumes "tokens net_delim (copy_line line) = ''DELIVER'' # mol @ [num]"
    and "recipe mol = Some (rc, ro, rh)" and "clean_uint num"
  shows "(rc * dec_val num \<ge> 18446744073709551616 \<or>
          ro * dec_val num \<ge> 18446744073709551616 \<or>
          rh * dec_val num \<ge> 18446744073709551616 \<or>
          dec_val num > 1000000000000000000 \<longrightarrow>
            deliver_command line s = (''ERROR: number too large'' @ [LF], s)) \<and>
         (dec_val num \<le> 1000000000000000000 \<longrightarrow>
            deliver_command line s =
              deliver_atoms (of_nat (rc * dec_val num)) (of_nat (ro * dec_val num))
                (of_nat (rh * dec_val num)) s \<and>
            unat (of_nat (rc * dec_val num) :: u64) = rc * dec_val num \<and>
            unat (of_nat (ro * dec_val num) :: u64) = ro * dec_val num \<and>
            unat (of_nat (rh * dec_val num) :: u64) = rh * dec_val num)"
proof -
  note small = recipe_small [OF assms(2)]
  have big: "rc * dec_val num \<ge> 18446744073709551616 \<or>
      ro * dec_val num \<ge> 18446744073709551616 \<or>
      rh * dec_val num \<ge> 18446744073709551616 \<Longrightarrow> dec_val num > 1000000000000000000"
    using small product_overflow_large by blast
  have ex: "dec_val num \<le> 1000000000000000000 \<Longrightarrow>
      unat (of_nat (rc * dec_val num) :: u64) = rc * dec_val num \<and>
      unat (of_nat (ro * dec_val num) :: u64) = ro * dec_val num \<and>
      unat (of_nat (rh * dec_val num) :: u64) = rh * dec_val num"
    using small product_exact by blast
  have a: "dec_val num > 1000000000000000000 \<Longrightarrow>
      deliver_command line s = (''ERROR: number too large'' @ [LF], s)"
    by (simp only: deliver_command_recipe [OF assms] if_True)
  have b: "dec_val num \<le> 1000000000000000000 \<Longrightarrow>
      deliver_command line s =
        deliver_atoms (of_nat (rc * dec_val num)) (of_nat (ro * dec_val num))
          (of_nat (rh * dec_val num)) s"
    by (simp only: deliver_command_recipe [OF assms] not_less [symmetric] if_False)
  from big ex a b show ?thesis by blast
qed

theorem deliver_products_exact_witness:
  "12 * dec_val ''1537228672809129302'' \<ge> (18446744073709551616 :: nat)
   \<and> deliver_command ''DELIVER GLUCOSE 1537228672809129302''
       (process_start None \<lparr>contents = None, rd_ok = True, wr_ok = True\<rparr>)
     = (''ERROR: number too large'' @ [LF],
        process_start None \<lparr>contents = None, rd_ok = True, wr_ok = True\<rparr>)
   \<and> unat (of_nat (12 * dec_val ''1000000000000000000'') :: u64) = 12000000000000000000"
proof -
  have tk: "tokens net_delim (copy_line ''DELIVER GLUCOSE 1537228672809129302'')
      = ''DELIVER'' # [''GLUCOSE''] @ [''1537228672809129302'']"
    by (simp add: token_eval_defs)
  have tk': "tokens net_delim (copy_line ''DELIVER GLUCOSE 1000000000000000000'')
      = ''DELIVER'' # [''GLUCOSE''] @ [''1000000000000000000'']"
    by (simp add: token_eval_defs)
  have rc: "recipe [''GLUCOSE''] = Some (6, 6, 12)"
    by (simp add: recipe_def)
  have cl: "clean_uint ''1537228672809129302''" "clean_uint ''1000000000000000000''"
    by (simp_all add: clean_uint_def isdigit_def)
  have dv: "dec_val ''1537228672809129302'' = 1537228672809129302"
    "dec_val ''1000000000000000000'' = 1000000000000000000"
    by (simp_all add: dec_val_def digit_val_def)
  from deliver_products_exact [OF tk rc cl(1)] deliver_products_exact [OF tk' rc cl(2)]
  show ?thesis by (simp add: dv)
qed

section \<open>DELIVER: validation\<close>




section \<open>The parsers and their reload\<close>

text \<open>
  The statements about ADD and DELIVER lines are made on \<^verbatim>\<open>parse_and_update_tcp\<close>
  and \<^verbatim>\<open>parse_and_update_udp\<close> behind the reload of their first lines. Without a
  save file there is no reload; with one, the line is handled on the reloaded
  state, or the process has ended.
\<close>

lemma reload_no_file: "save_file_path s = None \<Longrightarrow> reload s = Inr s"
  by (simp add: reload_def)

lemma parse_and_update_tcp_after_reload:
  "reload s = Inr s1 \<Longrightarrow> parse_and_update_tcp line s = Inr (add_command line s1)"
  by (simp add: parse_and_update_tcp_def)

lemma parse_and_update_udp_after_reload:
  "reload s = Inr s1 \<Longrightarrow> parse_and_update_udp line s = Inr (deliver_command line s1)"
  by (simp add: parse_and_update_udp_def)

lemma parse_and_update_exit:
  "reload s = Inl e \<Longrightarrow>
   parse_and_update_tcp line s = Inl e \<and> parse_and_update_udp line s = Inl e"
  by (simp add: parse_and_update_tcp_def parse_and_update_udp_def)

section \<open>Replies fit the buffer\<close>

text \<open>
  The replies are written with \<^verbatim>\<open>snprintf\<close> into a buffer of \<^verbatim>\<open>MAXBUF\<close> bytes. No
  reply is that long, so none is cut.
\<close>

lemma length_show_nat: "n < 10 ^ k \<Longrightarrow> 0 < k \<Longrightarrow> length (show_nat n) \<le> k"
proof (induction n arbitrary: k rule: show_nat.induct)
  case (1 n)
  show ?case
  proof (cases "n < 10")
    case True
    with "1.prems" show ?thesis by (simp add: show_nat.simps [of n])
  next
    case False
    with "1.prems" obtain j where k: "k = Suc j"
      by (cases k) auto
    from False "1.prems" k have "0 < j"
      by (cases j) auto
    moreover from "1.prems" k have "n div 10 < 10 ^ j"
      by (simp add: less_mult_imp_div_less mult.commute)
    ultimately have "length (show_nat (n div 10)) \<le> j"
      using "1.IH" False by simp
    with False k show ?thesis by (simp add: show_nat.simps [of n])
  qed
qed

lemma length_llu: "length (llu w) \<le> 20"
proof -
  have "unat w < 2 ^ 64" using unsigned_less [of w] by simp
  then have "unat w < 10 ^ 20" by simp
  then show ?thesis unfolding llu_def by (rule length_show_nat) simp
qed

lemma length_atoms_now: "length (atoms_now st) \<le> 90"
  using length_llu [of "carbon st"] length_llu [of "oxygen st"] length_llu [of "hydrogen st"]
  by (simp add: atoms_now_def)

lemma length_atoms_left: "length (atoms_left st) \<le> 105"
  using length_llu [of "carbon st"] length_llu [of "oxygen st"] length_llu [of "hydrogen st"]
  by (simp add: atoms_left_def)

lemma add_command_reply_fits: "length (fst (add_command line s)) < MAXBUF"
proof -
  have "\<And>st. length (atoms_now st) < 1024"
    by (rule le_less_trans [OF length_atoms_now]) simp
  with add_command_replies [of line s] show ?thesis
    by (auto simp: MAXBUF_def)
qed

lemma quantity_validation_errors:
  "quantity_validation clean large toks = Some e \<Longrightarrow> length e \<le> 21"
  by (auto simp: quantity_validation_def split: list.splits if_splits)

lemma deliver_validation_errors:
  "deliver_validation clean large toks = Some e \<Longrightarrow> length e \<le> 21"
  unfolding deliver_validation_def
  by (auto split: list.splits if_splits dest: quantity_validation_errors)

lemma deliver_atoms_reply_fits: "length (fst (deliver_atoms rc ro rh s)) \<le> 105"
  using length_atoms_left
  by (auto simp: deliver_atoms_def try_consume_def Let_def)

lemma deliver_command_reply_fits: "length (fst (deliver_command line s)) < MAXBUF"
proof (cases "deliver_validation c_number c_too_large (tokens net_delim (copy_line line))")
  case None
  with deliver_tokens_validation [of "tokens net_delim (copy_line line)" s]
  obtain rc ro rh where "deliver_command line s = deliver_atoms rc ro rh s"
    unfolding deliver_command_deliver_tokens by blast
  with deliver_atoms_reply_fits [of rc ro rh s] show ?thesis
    by (simp add: MAXBUF_def)
next
  case (Some e)
  with deliver_tokens_validation [of "tokens net_delim (copy_line line)" s]
  have "deliver_command line s = (''ERROR: '' @ e @ [LF], s)"
    unfolding deliver_command_deliver_tokens by blast
  with deliver_validation_errors [OF Some] show ?thesis
    by (simp add: MAXBUF_def)
qed

end
